theory Spec2Isabelle
  imports Main
begin

section \<open>The values a call of greet can pass\<close>

text \<open>
  The composer \<open>greet\<close> of src/main.mjs is untyped JavaScript, so its parameter can be
  bound to any value. The values modelled are \<open>undefined\<close>, \<open>null\<close>, booleans, strings
  and ordinary objects (prototype \<open>Object.prototype\<close>) whose own properties are
  string-keyed data properties holding such values again. Numbers, symbols, functions,
  arrays, accessors and objects with another prototype are outside this universe:
  converting them to text is floating-point printing or runs caller-supplied code.

  An object is the map from its own property names to their values.
\<close>

datatype js_value =
    Undefined
  | Null
  | Bool bool
  | Str string
  | Obj "string \<Rightarrow> js_value option"

text \<open>
  Nothing in the source throws; the only faults are the ones the runtime raises itself,
  and on the modelled values they are all \<open>TypeError\<close>.
\<close>

datatype js_error = TypeError

section \<open>The runtime operations the composer uses\<close>

text \<open>
  A parameter default \<open>p = d\<close> is taken exactly when the argument is \<open>undefined\<close>; a
  call that passes no argument binds the parameter to \<open>undefined\<close>, so the callee does not
  tell \<open>greet()\<close> from \<open>greet(undefined)\<close>.
\<close>

fun default_param :: "js_value \<Rightarrow> js_value \<Rightarrow> js_value" where
  "default_param Undefined d = d"
| "default_param v d = v"

text \<open>
  Reading a property of a value that can be destructured. An object yields its own
  property, or \<open>undefined\<close> when it has none of that name; a string or a boolean is
  boxed, and the box has no own property of the names read here. The function is used for
  the keys \<open>greeting\<close>, \<open>hello\<close> and \<open>name\<close> only, which no built-in prototype
  defines, so the prototype chain adds nothing.
\<close>

fun get_field :: "js_value \<Rightarrow> string \<Rightarrow> js_value" where
  "get_field (Obj m) k = (case m k of Some x \<Rightarrow> x | None \<Rightarrow> Undefined)"
| "get_field v k = Undefined"

text \<open>
  The object pattern \<open>{ a, b }\<close>: the runtime refuses to destructure \<open>undefined\<close> and
  \<open>null\<close> with a TypeError, and reads the two properties of anything else, in order.
\<close>

fun destructure :: "js_value \<Rightarrow> string \<Rightarrow> string \<Rightarrow> js_error + js_value \<times> js_value" where
  "destructure Undefined a b = Inl TypeError"
| "destructure Null a b = Inl TypeError"
| "destructure v a b = Inr (get_field v a, get_field v b)"

text \<open>
  The conversion to text that a template literal applies to each substitution. An
  ordinary object is printed by the inherited \<open>Object.prototype.toString\<close>; when it has
  an own property \<open>toString\<close> (not callable here, as functions are not modelled), no
  method yields a primitive and the runtime raises a TypeError.
\<close>

fun ToString :: "js_value \<Rightarrow> js_error + string" where
  "ToString Undefined = Inr ''undefined''"
| "ToString Null = Inr ''null''"
| "ToString (Bool b) = Inr (if b then ''true'' else ''false'')"
| "ToString (Str s) = Inr s"
| "ToString (Obj m) =
     (if m ''toString'' = None then Inr ''[object Object]'' else Inl TypeError)"

text \<open>The template literal \<open>`${a}, ${b}`\<close>: both substitutions converted, left to right.\<close>

definition template :: "js_value \<Rightarrow> js_value \<Rightarrow> js_error + string" where
  "template a b =
     (case ToString a of
        Inl e \<Rightarrow> Inl e
      | Inr s \<Rightarrow> (case ToString b of
                   Inl e \<Rightarrow> Inl e
                 | Inr t \<Rightarrow> Inr (s @ '', '' @ t)))"

text \<open>
  \<open>chalk\<close> is a dependency, not code of this repository, and the escape sequences it
  emits depend on the terminal. The styled string is kept symbolic: \<open>bgMagenta s\<close> is
  what \<open>chalk.bgMagenta\<close> returns for the content \<open>s\<close>.
\<close>

datatype chalk_text = bgMagenta string

text \<open>
  The state of the running process that the program can change: the writes made to
  standard output, oldest first. \<open>console.log\<close> with one string argument makes one
  write, the string followed by a line break.
\<close>

record process =
  stdout :: "chalk_text list"

definition console_log :: "chalk_text \<Rightarrow> process \<Rightarrow> process" where
  "console_log t \<sigma> = \<sigma>\<lparr>stdout := stdout \<sigma> @ [t]\<rparr>"

section \<open>The value providers\<close>

text \<open>
  Modelled from the spec: the modules hello.mjs and world.mjs (hello.ts and world.ts in
  the typed variant) that main imports are not among the source files. The spec's system
  overview gives their values, a greeting word "Hello" and a subject name "World"; the
  README's listing of the two modules (\<open>export const hello = 'Hello'\<close>,
  \<open>export const world = 'World'\<close>) agrees.
\<close>

definition hello :: string where
  "hello = ''Hello''"

definition world :: string where
  "world = ''World''"

section \<open>The composer\<close>

text \<open>
  src/main.mjs:
  \<^verbatim>\<open>function greet({ greeting, name } = { greeting: hello, name: world }) {
    console.log(chalk.bgMagenta(`${greeting}, ${name}`));
  }\<close>
  The two imported bindings are the first two arguments of the model. A fault leaves the
  function before anything is written; a call that completes returns \<open>undefined\<close>, as
  the body has no \<open>return\<close>.
\<close>

definition greet_mjs ::
  "string \<Rightarrow> string \<Rightarrow> js_value \<Rightarrow> process \<Rightarrow> js_error + js_value \<times> process" where
  "greet_mjs h w arg \<sigma> =
     (case destructure
             (default_param arg (Obj [''greeting'' \<mapsto> Str h, ''name'' \<mapsto> Str w]))
             ''greeting'' ''name'' of
        Inl e \<Rightarrow> Inl e
      | Inr (greeting, name) \<Rightarrow>
          (case template greeting name of
             Inl e \<Rightarrow> Inl e
           | Inr s \<Rightarrow> Inr (Undefined, console_log (bgMagenta s) \<sigma>)))"

text \<open>
  The typed variant, main.ts:
  \<^verbatim>\<open>interface IGreeting { hello: string; name: string; }
  function greet(greeting: IGreeting = { hello: hello, name: world }) {
    const { hello, name } = greeting;
    console.log(chalk.bgMagenta(`${hello}, ${name}`));
  }\<close>
  The type annotations are erased by the compiler; what runs is the function below. In
  the default initialiser \<open>hello\<close> is the imported binding: the body's \<open>const hello\<close>
  is not in scope there.
\<close>

definition greet_ts ::
  "string \<Rightarrow> string \<Rightarrow> js_value \<Rightarrow> process \<Rightarrow> js_error + js_value \<times> process" where
  "greet_ts h w arg \<sigma> =
     (let greeting = default_param arg (Obj [''hello'' \<mapsto> Str h, ''name'' \<mapsto> Str w]) in
      case destructure greeting ''hello'' ''name'' of
        Inl e \<Rightarrow> Inl e
      | Inr (hello', name) \<Rightarrow>
          (case template hello' name of
             Inl e \<Rightarrow> Inl e
           | Inr s \<Rightarrow> Inr (Undefined, console_log (bgMagenta s) \<sigma>)))"

text \<open>
  The values the interface \<open>IGreeting\<close> admits: objects whose properties \<open>hello\<close> and
  \<open>name\<close> are both strings (the typing is structural, further properties are allowed).
\<close>

fun is_IGreeting :: "js_value \<Rightarrow> bool" where
  "is_IGreeting (Obj m) =
     (case (m ''hello'', m ''name'') of
        (Some (Str a), Some (Str b)) \<Rightarrow> True
      | _ \<Rightarrow> False)"
| "is_IGreeting v = False"

section \<open>The program\<close>

text \<open>
  A run of the program, observed from outside: the process it runs in, and the log of the
  invocations of the composer made so far, each entry the argument the parameter was bound
  to, oldest first. The log is not state of the program (nothing in the source reads
  it); it is kept so that the number of invocations in a run can be stated.
\<close>

record run =
  proc :: process
  calls :: "js_value list"

text \<open>
  A call \<open>greet(arg)\<close> from the module body of src/main.mjs, where the imported
  bindings are the two providers: the invocation is logged, then the composer runs on the
  process. A fault is handed on to the caller, with the invocation logged and the process
  as the composer left it (unchanged).
\<close>

definition call_greet :: "js_value \<Rightarrow> run \<Rightarrow> (js_error + js_value) \<times> run" where
  "call_greet arg \<rho> =
     (let \<rho>' = \<rho>\<lparr>calls := calls \<rho> @ [arg]\<rparr> in
      case greet_mjs hello world arg (proc \<rho>') of
        Inl e \<Rightarrow> (Inl e, \<rho>')
      | Inr (r, \<sigma>') \<Rightarrow> (Inr r, \<rho>'\<lparr>proc := \<sigma>'\<rparr>))"

text \<open>
  The module body of src/main.mjs after its imports is the single statement
  \<open>greet();\<close>, a call with no argument. The host ends the process with exit code 0
  when the module body completes and with exit code 1 when a fault escapes it; standard
  output keeps what was written until then.
\<close>

definition main_mjs :: "run \<Rightarrow> nat \<times> run" where
  "main_mjs \<rho> =
     (case call_greet Undefined \<rho> of
        (Inl e, \<rho>') \<Rightarrow> (1, \<rho>')
      | (Inr r, \<rho>') \<Rightarrow> (0, \<rho>'))"

section \<open>Properties\<close>

subsection \<open>Shared facts\<close>

lemma greet_mjs_default:
  "greet_mjs h w Undefined \<sigma> = Inr (Undefined, console_log (bgMagenta (h @ '', '' @ w)) \<sigma>)"
  by (simp add: greet_mjs_def template_def)

lemma greet_ts_default:
  "greet_ts h w Undefined \<sigma> = Inr (Undefined, console_log (bgMagenta (h @ '', '' @ w)) \<sigma>)"
  by (simp add: greet_ts_def template_def)

lemma greet_mjs_Obj:
  "greet_mjs h w (Obj m) \<sigma> =
     (case template (get_field (Obj m) ''greeting'') (get_field (Obj m) ''name'') of
        Inl e \<Rightarrow> Inl e
      | Inr s \<Rightarrow> Inr (Undefined, console_log (bgMagenta s) \<sigma>))"
  by (simp add: greet_mjs_def)

lemma greet_ts_Obj:
  "greet_ts h w (Obj m) \<sigma> =
     (case template (get_field (Obj m) ''hello'') (get_field (Obj m) ''name'') of
        Inl e \<Rightarrow> Inl e
      | Inr s \<Rightarrow> Inr (Undefined, console_log (bgMagenta s) \<sigma>))"
  by (simp add: greet_ts_def)

lemma js_error_eq: "a = b" for a b :: js_error
  by (cases a; cases b) simp

subsection \<open>The default invocation\<close>

text \<open>
  C1. Called with no argument, the composer makes exactly one write to standard output,
  the text "Hello, World" wrapped in the background highlight, in the plain and in the
  typed variant alike.
\<close>

theorem greet_no_input:
  "greet_mjs hello world Undefined \<sigma> =
     Inr (Undefined, \<sigma>\<lparr>stdout := stdout \<sigma> @ [bgMagenta ''Hello, World'']\<rparr>)
   \<and> greet_ts hello world Undefined \<sigma> =
     Inr (Undefined, \<sigma>\<lparr>stdout := stdout \<sigma> @ [bgMagenta ''Hello, World'']\<rparr>)"
  by (simp add: greet_mjs_default greet_ts_default console_log_def hello_def world_def)

text \<open>
  C10. On the default invocation the plain and the typed variant are output-equivalent,
  whatever the providers hold, and with the providers of this repository both write
  "Hello, World". On an explicit input they read different fields: given
  \<open>{greeting: g, name: n}\<close> the plain variant writes \<open>g, n\<close>, while the typed one
  looks for \<open>hello\<close>, finds none and writes \<open>undefined, n\<close>.
\<close>

theorem variants_agree_on_default:
  "greet_mjs h w Undefined \<sigma> = greet_ts h w Undefined \<sigma>
   \<and> greet_mjs hello world Undefined \<sigma>
       = Inr (Undefined, \<sigma>\<lparr>stdout := stdout \<sigma> @ [bgMagenta ''Hello, World'']\<rparr>)
   \<and> greet_mjs h w (Obj [''greeting'' \<mapsto> Str g, ''name'' \<mapsto> Str n]) \<sigma>
       = Inr (Undefined, \<sigma>\<lparr>stdout := stdout \<sigma> @ [bgMagenta (g @ '', '' @ n)]\<rparr>)
   \<and> greet_ts h w (Obj [''greeting'' \<mapsto> Str g, ''name'' \<mapsto> Str n]) \<sigma>
       = Inr (Undefined, \<sigma>\<lparr>stdout := stdout \<sigma> @ [bgMagenta (''undefined, '' @ n)]\<rparr>)"
  by (simp add: greet_mjs_default greet_ts_default greet_mjs_Obj greet_ts_Obj template_def
      console_log_def hello_def world_def)

text \<open>
  C8. With the input omitted the composer falls back to the providers' values, whatever
  they are: the line written is the greeting word, a comma and a space, and the subject
  name; the providers hold "Hello" and "World". For every input that is supplied (any
  value but \<open>undefined\<close>, which is how the runtime hands over an omitted argument) the
  result is the same under any other pair of providers: their values are not consulted.
\<close>

theorem greet_mjs_fallback:
  "greet_mjs h w Undefined \<sigma>
     = Inr (Undefined, \<sigma>\<lparr>stdout := stdout \<sigma> @ [bgMagenta (h @ '', '' @ w)]\<rparr>)
   \<and> hello = ''Hello'' \<and> world = ''World''
   \<and> (arg \<noteq> Undefined \<longrightarrow> greet_mjs h w arg \<sigma> = greet_mjs h' w' arg \<sigma>)"
  by (cases arg) (simp_all add: greet_mjs_def template_def console_log_def hello_def world_def)

theorem greet_mjs_fallback_witness:
  "greet_mjs ''Hello'' ''World'' (Obj [''greeting'' \<mapsto> Str ''Hi'', ''name'' \<mapsto> Str ''Alice''])
       \<lparr>stdout = []\<rparr>
     = greet_mjs ''Bonjour'' ''Monde'' (Obj [''greeting'' \<mapsto> Str ''Hi'', ''name'' \<mapsto> Str ''Alice''])
       \<lparr>stdout = []\<rparr>"
proof -
  have d: "Obj [''greeting'' \<mapsto> Str ''Hi'', ''name'' \<mapsto> Str ''Alice''] \<noteq> Undefined"
    by simp
  show ?thesis
    using d greet_mjs_fallback [where arg = "Obj [''greeting'' \<mapsto> Str ''Hi'', ''name'' \<mapsto> Str ''Alice'']"
        and h = "''Hello''" and w = "''World''" and h' = "''Bonjour''" and w' = "''Monde''"
        and \<sigma> = "\<lparr>stdout = []\<rparr>"]
    by blast
qed

subsection \<open>Explicit inputs\<close>

text \<open>
  C2 (amended). The plain composer called with \<open>{greeting: "Hi", name: "Alice"}\<close>
  writes exactly "Hi, Alice". The typed composer reads the field \<open>hello\<close> in place of
  \<open>greeting\<close>: it writes "Hi, Alice" for \<open>{hello: "Hi", name: "Alice"}\<close>, and
  "undefined, Alice" for \<open>{greeting: "Hi", name: "Alice"}\<close>.
\<close>

theorem greet_explicit_input:
  "greet_mjs h w (Obj [''greeting'' \<mapsto> Str ''Hi'', ''name'' \<mapsto> Str ''Alice'']) \<sigma>
     = Inr (Undefined, \<sigma>\<lparr>stdout := stdout \<sigma> @ [bgMagenta ''Hi, Alice'']\<rparr>)
   \<and> greet_ts h w (Obj [''hello'' \<mapsto> Str ''Hi'', ''name'' \<mapsto> Str ''Alice'']) \<sigma>
     = Inr (Undefined, \<sigma>\<lparr>stdout := stdout \<sigma> @ [bgMagenta ''Hi, Alice'']\<rparr>)
   \<and> greet_ts h w (Obj [''greeting'' \<mapsto> Str ''Hi'', ''name'' \<mapsto> Str ''Alice'']) \<sigma>
     = Inr (Undefined, \<sigma>\<lparr>stdout := stdout \<sigma> @ [bgMagenta ''undefined, Alice'']\<rparr>)"
  by (simp add: greet_mjs_Obj greet_ts_Obj template_def console_log_def)

text \<open>
  The input \<open>{greeting: "Hi", name: "Alice"}\<close> in the typed variant: the interface does
  not admit it, and the compiled function, started on an empty output, writes
  "undefined, Alice", not "Hi, Alice".
\<close>

theorem greet_ts_greeting_field_counterexample:
  "greet_ts hello world (Obj [''greeting'' \<mapsto> Str ''Hi'', ''name'' \<mapsto> Str ''Alice''])
       \<lparr>stdout = []\<rparr>
     = Inr (Undefined, \<lparr>stdout = [bgMagenta ''undefined, Alice'']\<rparr>)
   \<and> greet_ts hello world (Obj [''greeting'' \<mapsto> Str ''Hi'', ''name'' \<mapsto> Str ''Alice''])
       \<lparr>stdout = []\<rparr>
     \<noteq> Inr (Undefined, \<lparr>stdout = [bgMagenta ''Hi, Alice'']\<rparr>)
   \<and> \<not> is_IGreeting (Obj [''greeting'' \<mapsto> Str ''Hi'', ''name'' \<mapsto> Str ''Alice''])"
  by (simp add: greet_ts_Obj template_def console_log_def)

text \<open>
  C3. For every input object whose two text fields are present, the composer writes the
  greeting word, a comma and a space, and the subject name, wrapped in the background
  highlight, and returns no value (\<open>undefined\<close>). The greeting word is the field
  \<open>greeting\<close> in the plain variant and the field \<open>hello\<close> in the typed one.
\<close>

theorem greet_formats_fields:
  assumes "m ''name'' = Some (Str n)"
  shows "(m ''greeting'' = Some (Str g) \<longrightarrow>
            greet_mjs h w (Obj m) \<sigma>
              = Inr (Undefined, \<sigma>\<lparr>stdout := stdout \<sigma> @ [bgMagenta (g @ '', '' @ n)]\<rparr>))
       \<and> (m ''hello'' = Some (Str g) \<longrightarrow>
            greet_ts h w (Obj m) \<sigma>
              = Inr (Undefined, \<sigma>\<lparr>stdout := stdout \<sigma> @ [bgMagenta (g @ '', '' @ n)]\<rparr>))"
  using assms by (simp add: greet_mjs_Obj greet_ts_Obj template_def console_log_def)

theorem greet_formats_fields_witness:
  "greet_mjs hello world
       (Obj [''greeting'' \<mapsto> Str ''Hey'', ''hello'' \<mapsto> Str ''Hey'', ''name'' \<mapsto> Str ''Bob''])
       \<lparr>stdout = []\<rparr>
     = Inr (Undefined, \<lparr>stdout = [bgMagenta ''Hey, Bob'']\<rparr>)
   \<and> greet_ts hello world
       (Obj [''greeting'' \<mapsto> Str ''Hey'', ''hello'' \<mapsto> Str ''Hey'', ''name'' \<mapsto> Str ''Bob''])
       \<lparr>stdout = []\<rparr>
     = Inr (Undefined, \<lparr>stdout = [bgMagenta ''Hey, Bob'']\<rparr>)"
proof -
  let ?m = "[''greeting'' \<mapsto> Str ''Hey'', ''hello'' \<mapsto> Str ''Hey'', ''name'' \<mapsto> Str ''Bob'']"
  have n: "?m ''name'' = Some (Str ''Bob'')" by simp
  have g: "?m ''greeting'' = Some (Str ''Hey'')" by simp
  have h: "?m ''hello'' = Some (Str ''Hey'')" by simp
  show ?thesis
    using greet_formats_fields [where m = ?m and n = "''Bob''" and g = "''Hey''"
        and h = hello and w = world and \<sigma> = "\<lparr>stdout = []\<rparr>"] n g h
    by simp
qed

text \<open>
  C5. Called with \<open>{greeting: "", name: ""}\<close> the composer writes the literal ", " and
  raises no fault: the fields are not validated.
\<close>

theorem greet_empty_fields:
  "greet_mjs h w (Obj [''greeting'' \<mapsto> Str '''', ''name'' \<mapsto> Str '''']) \<sigma>
     = Inr (Undefined, \<sigma>\<lparr>stdout := stdout \<sigma> @ [bgMagenta '', '']\<rparr>)"
  by (simp add: greet_mjs_Obj template_def console_log_def)

text \<open>
  C9. The default is all-or-nothing. For every input object with only one of the two
  text fields, the composer does not fall back to a provider for the other: the missing
  field is rendered as the text "undefined", the line written does not depend on the
  providers, and no fault is raised. This holds in the plain variant (fields
  \<open>greeting\<close>, \<open>name\<close>) and in the typed one as it runs (fields \<open>hello\<close>, \<open>name\<close>).
\<close>

theorem greet_missing_field:
  "(m ''greeting'' = Some (Str g) \<and> m ''name'' = None \<longrightarrow>
      greet_mjs h w (Obj m) \<sigma>
        = Inr (Undefined, \<sigma>\<lparr>stdout := stdout \<sigma> @ [bgMagenta (g @ '', undefined'')]\<rparr>))
   \<and> (m' ''greeting'' = None \<and> m' ''name'' = Some (Str n) \<longrightarrow>
      greet_mjs h w (Obj m') \<sigma>
        = Inr (Undefined, \<sigma>\<lparr>stdout := stdout \<sigma> @ [bgMagenta (''undefined, '' @ n)]\<rparr>))
   \<and> (m ''hello'' = Some (Str g) \<and> m ''name'' = None \<longrightarrow>
      greet_ts h w (Obj m) \<sigma>
        = Inr (Undefined, \<sigma>\<lparr>stdout := stdout \<sigma> @ [bgMagenta (g @ '', undefined'')]\<rparr>))
   \<and> (m' ''hello'' = None \<and> m' ''name'' = Some (Str n) \<longrightarrow>
      greet_ts h w (Obj m') \<sigma>
        = Inr (Undefined, \<sigma>\<lparr>stdout := stdout \<sigma> @ [bgMagenta (''undefined, '' @ n)]\<rparr>))"
  by (simp add: greet_mjs_Obj greet_ts_Obj template_def console_log_def)

theorem greet_missing_field_witness:
  "greet_mjs hello world (Obj [''greeting'' \<mapsto> Str ''Hi'', ''hello'' \<mapsto> Str ''Hi'']) \<lparr>stdout = []\<rparr>
     = Inr (Undefined, \<lparr>stdout = [bgMagenta ''Hi, undefined'']\<rparr>)
   \<and> greet_mjs hello world (Obj [''name'' \<mapsto> Str ''Alice'']) \<lparr>stdout = []\<rparr>
     = Inr (Undefined, \<lparr>stdout = [bgMagenta ''undefined, Alice'']\<rparr>)
   \<and> greet_ts hello world (Obj [''greeting'' \<mapsto> Str ''Hi'', ''hello'' \<mapsto> Str ''Hi'']) \<lparr>stdout = []\<rparr>
     = Inr (Undefined, \<lparr>stdout = [bgMagenta ''Hi, undefined'']\<rparr>)
   \<and> greet_ts hello world (Obj [''name'' \<mapsto> Str ''Alice'']) \<lparr>stdout = []\<rparr>
     = Inr (Undefined, \<lparr>stdout = [bgMagenta ''undefined, Alice'']\<rparr>)"
proof -
  let ?m = "[''greeting'' \<mapsto> Str ''Hi'', ''hello'' \<mapsto> Str ''Hi'']"
  let ?m' = "[''name'' \<mapsto> Str ''Alice'']"
  have a: "?m ''greeting'' = Some (Str ''Hi'') \<and> ?m ''name'' = None" by simp
  have b: "?m' ''greeting'' = None \<and> ?m' ''name'' = Some (Str ''Alice'')" by simp
  have c: "?m ''hello'' = Some (Str ''Hi'') \<and> ?m ''name'' = None" by simp
  have d: "?m' ''hello'' = None \<and> ?m' ''name'' = Some (Str ''Alice'')" by simp
  show ?thesis
    using a b c d greet_missing_field [where m = ?m and m' = ?m' and g = "''Hi''"
        and n = "''Alice''" and h = hello and w = world and \<sigma> = "\<lparr>stdout = []\<rparr>"]
    by simp
qed

subsection \<open>Faults\<close>

text \<open>
  C4 (amended). The composer has no error path of its own; a fault is the runtime's
  TypeError, raised before anything is written, and it is raised exactly when the input
  is \<open>null\<close> or one of the two fields read holds a value that cannot be converted to
  text. An object with missing fields is not such an input: a missing field reads as
  \<open>undefined\<close> and the call completes with a normal write, "undefined, undefined" when
  both fields are missing.
\<close>

theorem greet_mjs_faults:
  "greet_mjs h w Null \<sigma> = Inl TypeError
   \<and> (greet_mjs h w arg \<sigma> = Inl e \<longleftrightarrow>
        arg = Null
        \<or> ToString (get_field arg ''greeting'') = Inl TypeError
        \<or> ToString (get_field arg ''name'') = Inl TypeError)
   \<and> (m ''greeting'' = None \<and> m ''name'' = None \<longrightarrow>
        greet_mjs h w (Obj m) \<sigma>
          = Inr (Undefined, \<sigma>\<lparr>stdout := stdout \<sigma> @ [bgMagenta ''undefined, undefined'']\<rparr>))"
proof (intro conjI impI)
  show "greet_mjs h w Null \<sigma> = Inl TypeError"
    by (simp add: greet_mjs_def)
next
  show "greet_mjs h w arg \<sigma> = Inl e \<longleftrightarrow>
        arg = Null
        \<or> ToString (get_field arg ''greeting'') = Inl TypeError
        \<or> ToString (get_field arg ''name'') = Inl TypeError"
    by (cases arg)
      (auto simp: greet_mjs_def template_def split: sum.splits option.splits intro: js_error_eq)
next
  assume "m ''greeting'' = None \<and> m ''name'' = None"
  then show "greet_mjs h w (Obj m) \<sigma>
          = Inr (Undefined, \<sigma>\<lparr>stdout := stdout \<sigma> @ [bgMagenta ''undefined, undefined'']\<rparr>)"
    by (simp add: greet_mjs_Obj template_def console_log_def)
qed

theorem greet_mjs_faults_witness:
  "greet_mjs hello world
       (Obj [''greeting'' \<mapsto> Obj [''toString'' \<mapsto> Null], ''name'' \<mapsto> Str ''Alice''])
       \<lparr>stdout = []\<rparr>
     = Inl TypeError
   \<and> greet_mjs hello world (Obj [''other'' \<mapsto> Bool True]) \<lparr>stdout = []\<rparr>
     = Inr (Undefined, \<lparr>stdout = [bgMagenta ''undefined, undefined'']\<rparr>)"
proof -
  let ?arg = "Obj [''greeting'' \<mapsto> Obj [''toString'' \<mapsto> Null], ''name'' \<mapsto> Str ''Alice'']"
  let ?m = "[''other'' \<mapsto> Bool True]"
  have a: "ToString (get_field ?arg ''greeting'') = Inl TypeError" by simp
  have b: "?m ''greeting'' = None \<and> ?m ''name'' = None" by simp
  show ?thesis
    using a b greet_mjs_faults [where arg = ?arg and e = TypeError and m = ?m
        and h = hello and w = world and \<sigma> = "\<lparr>stdout = []\<rparr>"]
    by simp
qed

text \<open>
  An object with no field at all, given to the plain composer on an empty output: the
  call completes and writes "undefined, undefined"; no fault is raised.
\<close>

theorem greet_mjs_missing_fields_counterexample:
  "greet_mjs hello world (Obj Map.empty) \<lparr>stdout = []\<rparr>
     = Inr (Undefined, \<lparr>stdout = [bgMagenta ''undefined, undefined'']\<rparr>)
   \<and> greet_mjs hello world (Obj Map.empty) \<lparr>stdout = []\<rparr> \<noteq> Inl TypeError"
  by (simp add: greet_mjs_Obj template_def console_log_def)

subsection \<open>Effects\<close>

text \<open>
  C6. The composer is deterministic and carries no hidden state: for every input, what a
  call does is fixed by the input alone. If it faults on one state of the process it
  faults on every state, and if it completes it returns the same value and appends the
  same single line, whatever was written before; so a second run on the same input
  produces the output of the first.
\<close>

theorem greet_mjs_state_independent:
  "(greet_mjs h w arg \<sigma> = Inl e \<longrightarrow> greet_mjs h w arg \<sigma>' = Inl e)
   \<and> (greet_mjs h w arg \<sigma> = Inr (r, \<tau>) \<longrightarrow>
        (\<exists>line. \<tau> = \<sigma>\<lparr>stdout := stdout \<sigma> @ [line]\<rparr>
           \<and> greet_mjs h w arg \<sigma>' = Inr (r, \<sigma>'\<lparr>stdout := stdout \<sigma>' @ [line]\<rparr>)))"
  by (auto simp: greet_mjs_def console_log_def split: sum.splits prod.splits)

theorem greet_mjs_state_independent_witness:
  "greet_mjs hello world Null \<lparr>stdout = [bgMagenta ''earlier'']\<rparr> = Inl TypeError
   \<and> greet_mjs hello world (Obj [''greeting'' \<mapsto> Str ''Hi'', ''name'' \<mapsto> Str ''Alice''])
        \<lparr>stdout = [bgMagenta ''earlier'']\<rparr>
       = Inr (Undefined, \<lparr>stdout = [bgMagenta ''earlier'', bgMagenta ''Hi, Alice'']\<rparr>)"
proof -
  let ?v = "Obj [''greeting'' \<mapsto> Str ''Hi'', ''name'' \<mapsto> Str ''Alice'']"
  have f: "greet_mjs hello world Null \<lparr>stdout = []\<rparr> = Inl TypeError"
    by (simp add: greet_mjs_def)
  have r: "greet_mjs hello world ?v \<lparr>stdout = []\<rparr>
             = Inr (Undefined, \<lparr>stdout = [bgMagenta ''Hi, Alice'']\<rparr>)"
    by (simp add: greet_mjs_Obj template_def console_log_def)
  from f
    greet_mjs_state_independent [where h = hello and w = world and arg = Null
      and \<sigma> = "\<lparr>stdout = []\<rparr>" and e = TypeError
      and \<sigma>' = "\<lparr>stdout = [bgMagenta ''earlier'']\<rparr>"]
  have 1: "greet_mjs hello world Null \<lparr>stdout = [bgMagenta ''earlier'']\<rparr> = Inl TypeError"
    by blast
  from r
    greet_mjs_state_independent [where h = hello and w = world and arg = ?v
      and \<sigma> = "\<lparr>stdout = []\<rparr>" and r = Undefined
      and \<tau> = "\<lparr>stdout = [bgMagenta ''Hi, Alice'']\<rparr>"
      and \<sigma>' = "\<lparr>stdout = [bgMagenta ''earlier'']\<rparr>"]
  obtain line where l: "\<lparr>stdout = [bgMagenta ''Hi, Alice'']\<rparr> = \<lparr>stdout = [] @ [line]\<rparr>"
    and g: "greet_mjs hello world ?v \<lparr>stdout = [bgMagenta ''earlier'']\<rparr>
              = Inr (Undefined, \<lparr>stdout = [bgMagenta ''earlier''] @ [line]\<rparr>)"
    by auto
  from l have "line = bgMagenta ''Hi, Alice''" by simp
  with g 1 show ?thesis by simp
qed

text \<open>
  C7. In every run of the program the composer is invoked exactly once, with no argument:
  the run adds one entry to the log of invocations. Whatever the process had written
  before, the run's only effect on it is exactly one write appended to standard output,
  the styled line "Hello, World", and the process ends with exit code 0. Every call of
  the composer that completes returns no value (\<open>undefined\<close>) and its only effect is
  one styled write appended to standard output.
\<close>

theorem main_mjs_one_write:
  "main_mjs \<rho>
     = (0, \<lparr>proc = (proc \<rho>)\<lparr>stdout := stdout (proc \<rho>) @ [bgMagenta ''Hello, World'']\<rparr>,
            calls = calls \<rho> @ [Undefined]\<rparr>)
   \<and> length (calls (snd (main_mjs \<rho>))) = length (calls \<rho>) + 1
   \<and> length (stdout (proc (snd (main_mjs \<rho>)))) = length (stdout (proc \<rho>)) + 1
   \<and> (greet_mjs h w arg \<tau> = Inr (r, \<tau>') \<longrightarrow>
        r = Undefined \<and> (\<exists>s. \<tau>' = \<tau>\<lparr>stdout := stdout \<tau> @ [bgMagenta s]\<rparr>))"
proof -
  have run: "main_mjs \<rho>
     = (0, \<lparr>proc = (proc \<rho>)\<lparr>stdout := stdout (proc \<rho>) @ [bgMagenta ''Hello, World'']\<rparr>,
            calls = calls \<rho> @ [Undefined]\<rparr>)"
    by (simp add: main_mjs_def call_greet_def greet_mjs_default console_log_def
        hello_def world_def)
  have ret: "r = Undefined" if "greet_mjs h w arg \<tau> = Inr (r, \<tau>')"
    using that by (auto simp: greet_mjs_def split: sum.splits prod.splits)
  have eff: "\<exists>s. \<tau>' = \<tau>\<lparr>stdout := stdout \<tau> @ [bgMagenta s]\<rparr>"
    if "greet_mjs h w arg \<tau> = Inr (r, \<tau>')"
    using that by (auto simp: greet_mjs_def console_log_def split: sum.splits prod.splits)
  show ?thesis
    using ret eff by (simp add: run)
qed

theorem main_mjs_one_write_witness:
  "main_mjs \<lparr>proc = \<lparr>stdout = []\<rparr>, calls = []\<rparr>
     = (0, \<lparr>proc = \<lparr>stdout = [bgMagenta ''Hello, World'']\<rparr>, calls = [Undefined]\<rparr>)
   \<and> greet_mjs hello world (Str ''text'') \<lparr>stdout = []\<rparr>
       = Inr (Undefined, \<lparr>stdout = [bgMagenta ''undefined, undefined'']\<rparr>)"
proof -
  have r: "greet_mjs hello world (Str ''text'') \<lparr>stdout = []\<rparr>
             = Inr (Undefined, \<lparr>stdout = [bgMagenta ''undefined, undefined'']\<rparr>)"
    by (simp add: greet_mjs_def template_def console_log_def)
  show ?thesis
    using r main_mjs_one_write [where \<rho> = "\<lparr>proc = \<lparr>stdout = []\<rparr>, calls = []\<rparr>"
        and h = hello and w = world
        and arg = "Str ''text''" and \<tau> = "\<lparr>stdout = []\<rparr>" and r = Undefined
        and \<tau>' = "\<lparr>stdout = [bgMagenta ''undefined, undefined'']\<rparr>"]
    by simp
qed

end
